theory Spec2Isabelle
  imports Main
begin

section \<open>Python values, dictionaries and string formatting\<close>

text \<open>
  The notebooks of the repository are straight-line Python: they format a container
  image reference, fill a dictionary of hyperparameters, build a job configuration and
  call \<open>fit\<close> on it. This section models the Python values they handle.

  A float is kept as the decimal literal of the source (\<open>500.0\<close>, \<open>1e-4\<close>): the
  notebooks never compute with it, they only hand it on.
\<close>

datatype pyval = PStr string | PInt int | PFloat string | PBool bool

text \<open>
  A Python dictionary with string keys, in insertion order. \<open>d[k] = v\<close> replaces the
  value of a key that is present and appends the key otherwise.
\<close>

type_synonym 'v pydict = "(string \<times> 'v) list"

fun setitem :: "'v pydict \<Rightarrow> string \<Rightarrow> 'v \<Rightarrow> 'v pydict" where
  "setitem [] k v = [(k, v)]"
| "setitem ((k', v') # d) k v =
     (if k' = k then (k', v) # d else (k', v') # setitem d k v)"

definition keys :: "'v pydict \<Rightarrow> string list" where
  "keys d = map fst d"

text \<open>
  \<open>str.format\<close> with automatically numbered fields \<open>{}\<close> and string arguments, the
  only form the notebooks use. \<open>{{\<close> and \<open>}}\<close> are the escaped braces; a field with
  no argument left raises \<open>IndexError\<close>, a single brace raises \<open>ValueError\<close>;
  arguments left over are ignored. Named, numbered and converted fields are outside
  the model and reported as \<open>UnsupportedField\<close>.
\<close>

datatype format_error = IndexError | ValueError | UnsupportedField

definition emit :: "string \<Rightarrow> format_error + string \<Rightarrow> format_error + string" where
  "emit s r = (case r of Inl e \<Rightarrow> Inl e | Inr t \<Rightarrow> Inr (s @ t))"

fun str_format :: "string \<Rightarrow> string list \<Rightarrow> format_error + string" where
  "str_format [] args = Inr []"
| "str_format [c] args =
     (if c = CHR ''{'' \<or> c = CHR ''}'' then Inl ValueError else Inr [c])"
| "str_format (c # d # rest) args =
     (if c = CHR ''{'' then
        (if d = CHR ''}'' then
           (case args of
              [] \<Rightarrow> Inl IndexError
            | a # as \<Rightarrow> emit a (str_format rest as))
         else if d = CHR ''{'' then emit [CHR ''{''] (str_format rest args)
         else Inl UnsupportedField)
      else if c = CHR ''}'' then
        (if d = CHR ''}'' then emit [CHR ''}''] (str_format rest args)
         else Inl ValueError)
      else emit [c] (str_format (d # rest) args))"

text \<open>
  The two templates of the image reference. The notebooks \<open>pytorch_gcn\<close>,
  \<open>pytorch_gcn_hypertune\<close> and \<open>mxnet_gcn\<close> format account, region, repository and
  tag; the others (\<open>mxnet_gcmc\<close>, \<open>kge_mxnet\<close> and the two tox21 notebooks) format
  account, region and repository, with the tag \<open>latest\<close> written in the template.
\<close>

definition image_template :: string where
  "image_template = ''{}.dkr.ecr.{}.amazonaws.com/{}:{}''"

definition image_template_latest :: string where
  "image_template_latest = ''{}.dkr.ecr.{}.amazonaws.com/{}:latest''"

definition image_tagged :: "string \<Rightarrow> string \<Rightarrow> string \<Rightarrow> string \<Rightarrow> format_error + string" where
  "image_tagged account region docker_name docker_tag =
     str_format image_template [account, region, docker_name, docker_tag]"

definition image_latest :: "string \<Rightarrow> string \<Rightarrow> string \<Rightarrow> format_error + string" where
  "image_latest account region docker_name =
     str_format image_template_latest [account, region, docker_name]"

text \<open>
  The image reference as the specification writes it,
  \<open><account>.<registry-host>/<repository>:<tag>\<close>, by plain concatenation.
\<close>

definition ecr_image :: "string \<Rightarrow> string \<Rightarrow> string \<Rightarrow> string \<Rightarrow> string" where
  "ecr_image account region docker_name docker_tag =
     account @ ''.dkr.ecr.'' @ region @ ''.amazonaws.com/'' @ docker_name @ '':'' @ docker_tag"

section \<open>Job and tuning configurations\<close>

text \<open>
  The client session. The only attribute the notebooks read from it is the region
  (\<open>sess.boto_session.region_name\<close>).
\<close>

record session =
  region_name :: string

text \<open>
  The job configuration: the arguments a notebook gives to an estimator constructor
  (\<open>PyTorch(...)\<close>, \<open>MXNet(...)\<close> or \<open>sagemaker.estimator.Estimator(...)\<close>). The
  generic \<open>Estimator\<close> has neither \<open>entry_point\<close> nor \<open>source_dir\<close>; an argument
  that is not passed is \<open>None\<close>.
\<close>

datatype estimator_class = PyTorch | MXNet | Estimator

record job_config =
  estimator_class :: estimator_class
  entry_point :: "string option"
  source_dir :: "string option"
  role :: string
  train_instance_count :: int
  train_instance_type :: string
  image_name :: string
  hyperparameters :: "pyval pydict"
  sagemaker_session :: session

text \<open>The arguments of a \<open>fit\<close> call; an argument that is not passed is \<open>None\<close>.\<close>

record fit_args =
  inputs :: "string pydict option"
  logs :: "bool option"
  wait :: "bool option"

definition no_fit_args :: fit_args where
  "no_fit_args = \<lparr>inputs = None, logs = None, wait = None\<rparr>"

datatype param_range =
    ContinuousParameter pyval pyval
  | IntegerParameter pyval pyval
  | CategoricalParameter "pyval list"

datatype direction = Maximize | Minimize

record tuning_config =
  estimator :: job_config
  objective_metric_name :: string
  hyperparameter_ranges :: "param_range pydict"
  metric_definitions :: "string pydict list"
  max_jobs :: int
  max_parallel_jobs :: int
  objective_type :: direction

text \<open>
  Modelled from the spec: the constructor \<open>HyperparameterTuner\<close> belongs to the client
  library, which is not among the sources. Section 3 of the specification: a tuning
  configuration wraps a job configuration and adds the parameter-range mapping, the
  objective metric name and extraction pattern, the maximum total jobs, the maximum
  parallel jobs and the maximize/minimize direction (default maximize). The last
  argument is the direction, \<open>None\<close> when the caller passes none.
\<close>

definition HyperparameterTuner ::
  "job_config \<Rightarrow> string \<Rightarrow> param_range pydict \<Rightarrow> string pydict list \<Rightarrow> int \<Rightarrow> int \<Rightarrow>
   direction option \<Rightarrow> tuning_config" where
  "HyperparameterTuner est name ranges defs jobs parallel dir =
     \<lparr>estimator = est,
      objective_metric_name = name,
      hyperparameter_ranges = ranges,
      metric_definitions = defs,
      max_jobs = jobs,
      max_parallel_jobs = parallel,
      objective_type = (case dir of None \<Rightarrow> Maximize | Some d \<Rightarrow> d)\<rparr>"

section \<open>The external client and the notebook runs\<close>

text \<open>
  Everything a notebook asks of the outside world goes through the client library. A
  call either raises (\<open>Inl\<close>, with the library's own error of type \<open>'e\<close>) or returns.
  The client is a parameter of every notebook: its answers are not part of the
  repository.

  \<^item> \<open>new_session\<close>: \<open>sagemaker.Session()\<close>;
  \<^item> \<open>default_bucket\<close>: \<open>sess.default_bucket()\<close>;
  \<^item> \<open>get_execution_role\<close>: \<open>get_execution_role()\<close>;
  \<^item> \<open>upload_data\<close>: \<open>sess.upload_data(path, bucket=..., key_prefix=...)\<close>;
  \<^item> \<open>get_caller_identity\<close>: the account of
    \<open>sess.boto_session.client('sts').get_caller_identity()\<close>;
  \<^item> \<open>build_and_push\<close>: the \<open>%%sh\<close> cell that builds the image from a Dockerfile and
    pushes it to the registry (it fails when the cell's script fails);
  \<^item> \<open>fit_estimator\<close>, \<open>fit_tuner\<close>: the submission; the answer is the name of the job;
  \<^item> \<open>describe_tuning_job\<close>: the status of
    \<open>describe_hyper_parameter_tuning_job\<close> for a job name.

  The cells that only print a script (\<open>!cat\<close>) or install a package
  (\<open>!conda install\<close>) never raise and leave no value behind; they are left out.
\<close>

record 'e client =
  new_session :: "'e + session"
  default_bucket :: "session \<Rightarrow> 'e + string"
  get_execution_role :: "'e + string"
  upload_data :: "session \<Rightarrow> string \<Rightarrow> string \<Rightarrow> string \<Rightarrow> 'e + string"
  get_caller_identity :: "session \<Rightarrow> 'e + string"
  build_and_push :: "string \<Rightarrow> string \<Rightarrow> 'e + unit"
  fit_estimator :: "job_config \<Rightarrow> fit_args \<Rightarrow> 'e + string"
  fit_tuner :: "tuning_config \<Rightarrow> fit_args \<Rightarrow> 'e + string"
  describe_tuning_job :: "string \<Rightarrow> 'e + string"

text \<open>The calls a run makes, in order, with their arguments.\<close>

datatype event =
    NewSession
  | DefaultBucket
  | GetExecutionRole
  | UploadData string string string
  | GetCallerIdentity
  | BuildAndPush string string
  | FitEstimator job_config fit_args
  | FitTuner tuning_config fit_args
  | DescribeTuningJob string

text \<open>
  A run fails with the error of the client, or with an error of Python's own string
  formatting.
\<close>

datatype 'e failure = ClientError 'e | FormatError format_error

text \<open>
  A notebook runs its statements in order. A statement that raises ends the run: no
  notebook has a \<open>try\<close> statement, so the failure is the result of the run. The run
  keeps the list of the calls made so far.
\<close>

type_synonym ('e, 'a) nb = "event list \<Rightarrow> ('e failure + 'a) \<times> event list"

definition nb_bind :: "('e, 'a) nb \<Rightarrow> ('a \<Rightarrow> ('e, 'b) nb) \<Rightarrow> ('e, 'b) nb" where
  "nb_bind m f =
     (\<lambda>tr. case m tr of
        (Inl e, tr') \<Rightarrow> (Inl e, tr')
      | (Inr x, tr') \<Rightarrow> f x tr')"

definition call :: "event \<Rightarrow> 'e + 'a \<Rightarrow> ('e, 'a) nb" where
  "call ev answer =
     (\<lambda>tr. (case answer of Inl e \<Rightarrow> Inl (ClientError e) | Inr x \<Rightarrow> Inr x, tr @ [ev]))"

definition formatted :: "format_error + 'a \<Rightarrow> ('e, 'a) nb" where
  "formatted r =
     (\<lambda>tr. (case r of Inl e \<Rightarrow> Inl (FormatError e) | Inr x \<Rightarrow> Inr x, tr))"

text \<open>The setup cell shared by the notebooks: session, bucket, upload prefix, role.\<close>

definition custom_code_upload_location :: string where
  "custom_code_upload_location = ''customcode''"

section \<open>The notebooks\<close>

subsection \<open>pytorch_gcn (the notebook of src/unnamed/part_000)\<close>

definition pytorch_gcn_params :: "pyval pydict" where
  "pytorch_gcn_params = setitem [] ''dataset'' (PStr ''cora'')"

definition pytorch_gcn_estimator :: "string \<Rightarrow> string \<Rightarrow> session \<Rightarrow> job_config" where
  "pytorch_gcn_estimator role_arn image_uri sess =
     \<lparr>estimator_class = PyTorch,
      entry_point = Some ''pytorch_gcn.py'',
      source_dir = None,
      role = role_arn,
      train_instance_count = 1,
      train_instance_type = ''ml.p3.2xlarge'',
      image_name = image_uri,
      hyperparameters = pytorch_gcn_params,
      sagemaker_session = sess\<rparr>"

definition pytorch_gcn :: "'e client \<Rightarrow> ('e failure + string) \<times> event list" where
  "pytorch_gcn c =
     nb_bind (call NewSession (new_session c)) (\<lambda>sess.
     nb_bind (call DefaultBucket (default_bucket c sess)) (\<lambda>bucket.
     nb_bind (call GetExecutionRole (get_execution_role c)) (\<lambda>role.
     nb_bind (call GetCallerIdentity (get_caller_identity c sess)) (\<lambda>account.
     nb_bind (formatted (image_tagged account (region_name sess)
                ''beta-pytorch-training'' ''1.3.0-py3-gpu-build'')) (\<lambda>image.
       let est = pytorch_gcn_estimator role image sess
       in call (FitEstimator est no_fit_args) (fit_estimator c est no_fit_args)))))) []"

subsection \<open>mxnet_gcn\<close>

definition mxnet_gcn_params :: "pyval pydict" where
  "mxnet_gcn_params = setitem [] ''dataset'' (PStr ''cora'')"

definition mxnet_gcn_estimator :: "string \<Rightarrow> string \<Rightarrow> session \<Rightarrow> job_config" where
  "mxnet_gcn_estimator role_arn image_uri sess =
     \<lparr>estimator_class = MXNet,
      entry_point = Some ''mxnet_gcn.py'',
      source_dir = None,
      role = role_arn,
      train_instance_count = 1,
      train_instance_type = ''ml.p3.2xlarge'',
      image_name = image_uri,
      hyperparameters = mxnet_gcn_params,
      sagemaker_session = sess\<rparr>"

definition mxnet_gcn :: "'e client \<Rightarrow> ('e failure + string) \<times> event list" where
  "mxnet_gcn c =
     nb_bind (call NewSession (new_session c)) (\<lambda>sess.
     nb_bind (call DefaultBucket (default_bucket c sess)) (\<lambda>bucket.
     nb_bind (call GetExecutionRole (get_execution_role c)) (\<lambda>role.
     nb_bind (call GetCallerIdentity (get_caller_identity c sess)) (\<lambda>account.
     nb_bind (formatted (image_tagged account (region_name sess)
                ''beta-mxnet-training'' ''1.6.0-py3-gpu-build'')) (\<lambda>image.
       let est = mxnet_gcn_estimator role image sess
       in call (FitEstimator est no_fit_args) (fit_estimator c est no_fit_args)))))) []"

subsection \<open>mxnet_gcmc\<close>

definition mxnet_gcmc_params :: "pyval pydict" where
  "mxnet_gcmc_params =
     setitem (setitem [] ''data_name'' (PStr ''ml-1m'')) ''save_dir'' (PStr ''/opt/ml/model/'')"

definition mxnet_gcmc_estimator :: "string \<Rightarrow> string \<Rightarrow> session \<Rightarrow> job_config" where
  "mxnet_gcmc_estimator role_arn image_uri sess =
     \<lparr>estimator_class = MXNet,
      entry_point = Some ''train.py'',
      source_dir = Some ''../dgl_gcmc'',
      role = role_arn,
      train_instance_count = 1,
      train_instance_type = ''ml.p3.2xlarge'',
      image_name = image_uri,
      hyperparameters = mxnet_gcmc_params,
      sagemaker_session = sess\<rparr>"

definition mxnet_gcmc :: "'e client \<Rightarrow> ('e failure + string) \<times> event list" where
  "mxnet_gcmc c =
     nb_bind (call NewSession (new_session c)) (\<lambda>sess.
     nb_bind (call DefaultBucket (default_bucket c sess)) (\<lambda>bucket.
     nb_bind (formatted (str_format ''s3://{}/artifacts'' [bucket])) (\<lambda>model_artifacts_location.
     nb_bind (call GetExecutionRole (get_execution_role c)) (\<lambda>role.
     nb_bind (call (BuildAndPush ''sagemaker-dgl-gcmc'' ''GCMC.Dockerfile'')
                (build_and_push c ''sagemaker-dgl-gcmc'' ''GCMC.Dockerfile'')) (\<lambda>_.
     nb_bind (call GetCallerIdentity (get_caller_identity c sess)) (\<lambda>account.
     nb_bind (formatted (image_latest account (region_name sess) ''sagemaker-dgl-gcmc'')) (\<lambda>image.
       let est = mxnet_gcmc_estimator role image sess
       in call (FitEstimator est no_fit_args) (fit_estimator c est no_fit_args)))))))) []"

subsection \<open>kge_mxnet\<close>

definition kge_mxnet_params :: "pyval pydict" where
  "kge_mxnet_params =
     (let params = [];
          params = setitem params ''dataset'' (PStr ''FB15k'');
          params = setitem params ''model'' (PStr ''DistMult'');
          params = setitem params ''batch_size'' (PInt 1024);
          params = setitem params ''neg_sample_size'' (PInt 256);
          params = setitem params ''hidden_dim'' (PInt 2000);
          params = setitem params ''gamma'' (PFloat ''500.0'');
          params = setitem params ''lr'' (PFloat ''0.1'');
          params = setitem params ''max_step'' (PInt 100000);
          params = setitem params ''batch_size_eval'' (PInt 16);
          params = setitem params ''valid'' (PBool True);
          params = setitem params ''test'' (PBool True);
          params = setitem params ''neg_adversarial_sampling'' (PBool True)
      in params)"

definition kge_mxnet_fit_args :: fit_args where
  "kge_mxnet_fit_args = \<lparr>inputs = None, logs = Some True, wait = Some True\<rparr>"

definition kge_mxnet_estimator :: "string \<Rightarrow> string \<Rightarrow> session \<Rightarrow> job_config" where
  "kge_mxnet_estimator role_arn image_uri sess =
     \<lparr>estimator_class = MXNet,
      entry_point = Some ''train.py'',
      source_dir = Some ''./'',
      role = role_arn,
      train_instance_count = 1,
      train_instance_type = ''ml.p3.2xlarge'',
      image_name = image_uri,
      hyperparameters = kge_mxnet_params,
      sagemaker_session = sess\<rparr>"

definition kge_mxnet :: "'e client \<Rightarrow> ('e failure + string) \<times> event list" where
  "kge_mxnet c =
     nb_bind (call NewSession (new_session c)) (\<lambda>sess.
     nb_bind (call DefaultBucket (default_bucket c sess)) (\<lambda>bucket.
     nb_bind (call GetExecutionRole (get_execution_role c)) (\<lambda>role.
     nb_bind (call (BuildAndPush ''sagemaker-dgl-kge-mxnet'' ''KGE_mxnet.Dockerfile'')
                (build_and_push c ''sagemaker-dgl-kge-mxnet'' ''KGE_mxnet.Dockerfile'')) (\<lambda>_.
     nb_bind (call GetCallerIdentity (get_caller_identity c sess)) (\<lambda>account.
     nb_bind (formatted (image_latest account (region_name sess) ''sagemaker-dgl-kge-mxnet'')) (\<lambda>image.
       let est = kge_mxnet_estimator role image sess
       in call (FitEstimator est kge_mxnet_fit_args)
            (fit_estimator c est kge_mxnet_fit_args))))))) []"

subsection \<open>pytorch-gcn-tox21\<close>

definition tox21_estimator :: "string \<Rightarrow> string \<Rightarrow> session \<Rightarrow> job_config" where
  "tox21_estimator role_arn image_uri sess =
     \<lparr>estimator_class = Estimator,
      entry_point = None,
      source_dir = None,
      role = role_arn,
      train_instance_count = 1,
      train_instance_type = ''ml.p3.2xlarge'',
      image_name = image_uri,
      hyperparameters = [(''entrypoint'', PStr ''main.py'')],
      sagemaker_session = sess\<rparr>"

text \<open>
  Both tox21 notebooks pass the channels \<open>{'training-code': code_location}\<close> to
  \<open>fit\<close>.
\<close>

definition tox21_fit_args :: "string \<Rightarrow> fit_args" where
  "tox21_fit_args code_location =
     \<lparr>inputs = Some [(''training-code'', code_location)], logs = None, wait = None\<rparr>"

definition pytorch_gcn_tox21 :: "'e client \<Rightarrow> ('e failure + string) \<times> event list" where
  "pytorch_gcn_tox21 c =
     nb_bind (call NewSession (new_session c)) (\<lambda>sess.
     nb_bind (call DefaultBucket (default_bucket c sess)) (\<lambda>bucket.
     nb_bind (call GetExecutionRole (get_execution_role c)) (\<lambda>role.
     nb_bind (call (BuildAndPush ''sagemaker-dgl-pytorch-gcn-tox21'' ''gcn_tox21.Dockerfile'')
                (build_and_push c ''sagemaker-dgl-pytorch-gcn-tox21'' ''gcn_tox21.Dockerfile'')) (\<lambda>_.
     nb_bind (call (UploadData ''main.py'' bucket custom_code_upload_location)
                (upload_data c sess ''main.py'' bucket custom_code_upload_location)) (\<lambda>code_location.
     nb_bind (call GetCallerIdentity (get_caller_identity c sess)) (\<lambda>account.
     nb_bind (formatted (image_latest account (region_name sess)
                ''sagemaker-dgl-pytorch-gcn-tox21'')) (\<lambda>image.
       let est = tox21_estimator role image sess;
           args = tox21_fit_args code_location
       in call (FitEstimator est args) (fit_estimator c est args)))))))) []"

subsection \<open>pytorch_gcn_hypertune\<close>

definition backslash :: char where
  "backslash = CHR 0x5C"

text \<open>
  The pattern \<open>Test Accuracy ([0-9\.]+)%\<close>: the Python literal of the notebook writes
  its backslash doubled.
\<close>

definition gcn_metric_regex :: string where
  "gcn_metric_regex = ''Test Accuracy ([0-9'' @ [backslash] @ ''.]+)%''"

definition gcn_hyperparameter_ranges :: "param_range pydict" where
  "gcn_hyperparameter_ranges =
     [(''lr'', ContinuousParameter (PFloat ''0.001'') (PFloat ''0.01'')),
      (''n-epochs'', IntegerParameter (PInt 100) (PInt 200))]"

definition gcn_metric_definitions :: "string pydict list" where
  "gcn_metric_definitions =
     [[(''Name'', ''Validation-accuracy''), (''Regex'', gcn_metric_regex)]]"

definition pytorch_gcn_hypertune_params :: "pyval pydict" where
  "pytorch_gcn_hypertune_params = setitem [] ''dataset'' (PStr ''cora'')"

definition pytorch_gcn_hypertune_estimator :: "string \<Rightarrow> string \<Rightarrow> session \<Rightarrow> job_config" where
  "pytorch_gcn_hypertune_estimator role_arn image_uri sess =
     \<lparr>estimator_class = PyTorch,
      entry_point = Some ''pytorch_gcn.py'',
      source_dir = None,
      role = role_arn,
      train_instance_count = 1,
      train_instance_type = ''ml.p3.2xlarge'',
      image_name = image_uri,
      hyperparameters = pytorch_gcn_hypertune_params,
      sagemaker_session = sess\<rparr>"

definition pytorch_gcn_hypertune_tuner :: "job_config \<Rightarrow> tuning_config" where
  "pytorch_gcn_hypertune_tuner est =
     (let objective_metric_name = ''Validation-accuracy''
      in HyperparameterTuner est objective_metric_name gcn_hyperparameter_ranges
           gcn_metric_definitions 6 2 None)"

definition pytorch_gcn_hypertune_fit_args :: "string \<Rightarrow> fit_args" where
  "pytorch_gcn_hypertune_fit_args code_location =
     (let data = setitem [] ''training-code'' code_location
      in \<lparr>inputs = Some data, logs = None, wait = None\<rparr>)"

definition pytorch_gcn_hypertune :: "'e client \<Rightarrow> ('e failure + string) \<times> event list" where
  "pytorch_gcn_hypertune c =
     nb_bind (call NewSession (new_session c)) (\<lambda>sess.
     nb_bind (call DefaultBucket (default_bucket c sess)) (\<lambda>bucket.
     nb_bind (call GetExecutionRole (get_execution_role c)) (\<lambda>role.
     nb_bind (call (UploadData ''./'' bucket custom_code_upload_location)
                (upload_data c sess ''./'' bucket custom_code_upload_location)) (\<lambda>code_location.
     nb_bind (call GetCallerIdentity (get_caller_identity c sess)) (\<lambda>account.
     nb_bind (formatted (image_tagged account (region_name sess)
                ''beta-pytorch-training'' ''1.3.0-py3-gpu-build'')) (\<lambda>image.
       let est = pytorch_gcn_hypertune_estimator role image sess;
           tuner = pytorch_gcn_hypertune_tuner est;
           args = pytorch_gcn_hypertune_fit_args code_location
       in nb_bind (call (FitTuner tuner args) (fit_tuner c tuner args)) (\<lambda>job_name.
          call (DescribeTuningJob job_name) (describe_tuning_job c job_name)))))))) []"

subsection \<open>pytorch-gcn-tox21-hypertune\<close>

definition tox21_metric_regex :: string where
  "tox21_metric_regex = ''Best validation score ([0-9'' @ [backslash] @ ''.]+)''"

definition tox21_hyper_ranges :: "param_range pydict" where
  "tox21_hyper_ranges =
     [(''lr'', ContinuousParameter (PFloat ''1e-4'') (PFloat ''1e-2'')),
      (''patience'', IntegerParameter (PInt 5) (PInt 30)),
      (''n_hidden'', CategoricalParameter [PInt 32, PInt 64, PInt 128])]"

definition tox21_metric_definitions :: "string pydict list" where
  "tox21_metric_definitions =
     [[(''Name'', ''Validation_roc_auc''), (''Regex'', tox21_metric_regex)]]"

definition tox21_tuner :: "job_config \<Rightarrow> tuning_config" where
  "tox21_tuner est =
     (let objective_name = ''Validation_roc_auc''
      in HyperparameterTuner est objective_name tox21_hyper_ranges
           tox21_metric_definitions 6 2 None)"

definition pytorch_gcn_tox21_hypertune ::
  "'e client \<Rightarrow> ('e failure + string) \<times> event list" where
  "pytorch_gcn_tox21_hypertune c =
     nb_bind (call NewSession (new_session c)) (\<lambda>sess.
     nb_bind (call DefaultBucket (default_bucket c sess)) (\<lambda>bucket.
     nb_bind (call GetExecutionRole (get_execution_role c)) (\<lambda>role.
     nb_bind (call (UploadData ''main.py'' bucket custom_code_upload_location)
                (upload_data c sess ''main.py'' bucket custom_code_upload_location)) (\<lambda>code_location.
     nb_bind (call GetCallerIdentity (get_caller_identity c sess)) (\<lambda>account.
     nb_bind (formatted (image_latest account (region_name sess)
                ''sagemaker-dgl-pytorch-gcn-tox21'')) (\<lambda>image.
       let est = tox21_estimator role image sess;
           tuner = tox21_tuner est;
           args = tox21_fit_args code_location
       in nb_bind (call (FitTuner tuner args) (fit_tuner c tuner args)) (\<lambda>job_name.
          call (DescribeTuningJob job_name) (describe_tuning_job c job_name)))))))) []"

subsection \<open>All notebooks, and what a run submitted\<close>

definition training_notebooks :: "'e client \<Rightarrow> (('e failure + string) \<times> event list) list" where
  "training_notebooks c =
     [pytorch_gcn c, mxnet_gcn c, mxnet_gcmc c, kge_mxnet c, pytorch_gcn_tox21 c]"

definition tuning_notebooks :: "'e client \<Rightarrow> (('e failure + string) \<times> event list) list" where
  "tuning_notebooks c = [pytorch_gcn_hypertune c, pytorch_gcn_tox21_hypertune c]"

definition all_notebooks :: "'e client \<Rightarrow> (('e failure + string) \<times> event list) list" where
  "all_notebooks c = training_notebooks c @ tuning_notebooks c"

fun is_submission :: "event \<Rightarrow> bool" where
  "is_submission (FitEstimator j a) = True"
| "is_submission (FitTuner t a) = True"
| "is_submission _ = False"

definition submissions :: "event list \<Rightarrow> event list" where
  "submissions tr = filter is_submission tr"

text \<open>The job configuration of a submission: for a tuner, the one it wraps.\<close>

fun submitted_config :: "event \<Rightarrow> job_config option" where
  "submitted_config (FitEstimator j a) = Some j"
| "submitted_config (FitTuner t a) = Some (estimator t)"
| "submitted_config _ = None"

fun submitted_tuner :: "event \<Rightarrow> tuning_config option" where
  "submitted_tuner (FitTuner t a) = Some t"
| "submitted_tuner _ = None"

fun submitted_args :: "event \<Rightarrow> fit_args option" where
  "submitted_args (FitEstimator j a) = Some a"
| "submitted_args (FitTuner t a) = Some a"
| "submitted_args _ = None"

text \<open>The answer of the client to a submission.\<close>

fun answer_of :: "'e client \<Rightarrow> event \<Rightarrow> ('e + string) option" where
  "answer_of c (FitEstimator j a) = Some (fit_estimator c j a)"
| "answer_of c (FitTuner t a) = Some (fit_tuner c t a)"
| "answer_of c _ = None"

text \<open>
  The answer of the client to the upload of the code at \<open>path\<close>, when the session
  and the bucket before it were granted: the notebooks that upload their code do it
  with the session, its default bucket and the prefix \<open>customcode\<close>.
\<close>

definition code_upload :: "'e client \<Rightarrow> string \<Rightarrow> ('e + string) option" where
  "code_upload c path =
     (case new_session c of
        Inl e \<Rightarrow> None
      | Inr sess \<Rightarrow>
          (case default_bucket c sess of
             Inl e \<Rightarrow> None
           | Inr bucket \<Rightarrow> Some (upload_data c sess path bucket custom_code_upload_location)))"

subsection \<open>The outcomes of a run\<close>

text \<open>
  A run either stops before it submits anything, or submits once. After the
  submission of a training job the run ends with the answer of the client; after
  the submission of a tuning job it asks for the status of the job.
\<close>

definition stopped_before_submission :: "('e failure + string) \<times> event list \<Rightarrow> bool" where
  "stopped_before_submission run =
     (submissions (snd run) = [] \<and> (case fst run of Inl e \<Rightarrow> True | Inr h \<Rightarrow> False))"

definition training_outcome ::
  "'e client \<Rightarrow> ('e failure + string) \<times> event list \<Rightarrow> job_config \<Rightarrow> fit_args \<Rightarrow> bool" where
  "training_outcome c run est args =
     (submissions (snd run) = [FitEstimator est args] \<and>
      last (snd run) = FitEstimator est args \<and>
      fst run =
        (case fit_estimator c est args of
           Inl e \<Rightarrow> Inl (ClientError e)
         | Inr job_name \<Rightarrow> Inr job_name))"

definition tuning_outcome ::
  "'e client \<Rightarrow> ('e failure + string) \<times> event list \<Rightarrow> tuning_config \<Rightarrow> fit_args \<Rightarrow> bool" where
  "tuning_outcome c run tuner args =
     (submissions (snd run) = [FitTuner tuner args] \<and>
      (case fit_tuner c tuner args of
         Inl e \<Rightarrow> fst run = Inl (ClientError e) \<and> last (snd run) = FitTuner tuner args
       | Inr job_name \<Rightarrow>
           last (snd run) = DescribeTuningJob job_name \<and>
           fst run =
             (case describe_tuning_job c job_name of
                Inl e \<Rightarrow> Inl (ClientError e)
              | Inr status \<Rightarrow> Inr status)))"

section \<open>Metric extraction\<close>

text \<open>
  Modelled from the spec: the engine that applies a metric pattern to the lines of a
  job's log belongs to the platform and is not among the sources. Section 6 of the
  specification: the metric extraction pattern is a text pattern matched against job
  log lines to pull a scalar metric value. The pattern is a regular expression in
  Python's syntax; the model reads the part of that syntax the notebooks use
  (literal characters, an escaped punctuation character, \<open>.\<close>, character classes of
  characters and ranges, capturing groups, and the greedy postfix operators \<open>*\<close>,
  \<open>+\<close>, \<open>?\<close>) and refuses the rest. Matching is the usual search of a backtracking
  engine: the leftmost position where the pattern matches, each repetition taking as
  many characters as it can; the value pulled is the text of group 1.
\<close>

datatype class_item = Single char | Range char char

datatype regex =
    Chr char
  | AnyChar
  | CharClass "class_item list"
  | Empty
  | Seq regex regex
  | Star regex
  | Plus regex
  | Opt regex
  | Group nat regex

subsection \<open>Reading a pattern\<close>

datatype lexeme = Raw char | Esc char

fun lexeme_char :: "lexeme \<Rightarrow> char" where
  "lexeme_char (Raw c) = c"
| "lexeme_char (Esc c) = c"

definition is_alnum :: "char \<Rightarrow> bool" where
  "is_alnum c =
     (let n = (of_char c :: nat)
      in (48 \<le> n \<and> n \<le> 57) \<or> (65 \<le> n \<and> n \<le> 90) \<or> (97 \<le> n \<and> n \<le> 122))"

text \<open>
  A backslash before a character that is neither a letter nor a digit makes it a
  literal; the escapes of letters and digits (classes, back references) are refused.
\<close>

fun unescape :: "string \<Rightarrow> lexeme list option" where
  "unescape [] = Some []"
| "unescape [c] = (if c = backslash then None else Some [Raw c])"
| "unescape (c # d # rest) =
     (if c = backslash then
        (if is_alnum d then None else map_option ((#) (Esc d)) (unescape rest))
      else map_option ((#) (Raw c)) (unescape (d # rest)))"

datatype token =
    TChar char
  | TAny
  | TClass "class_item list"
  | TOpen
  | TClose
  | TStar
  | TPlus
  | TOpt

definition next_is :: "lexeme \<Rightarrow> lexeme list \<Rightarrow> bool" where
  "next_is x r = (case r of [] \<Rightarrow> False | y # _ \<Rightarrow> y = x)"

text \<open>
  \<open>tokens\<close> reads the pattern outside a character class, \<open>in_class\<close> inside one. A
  class that starts with \<open>^\<close> or \<open>]\<close>, a group that starts with \<open>?\<close>, and the
  operators \<open>^\<close>, \<open>$\<close>, \<open>|\<close> and \<open>{\<close> are refused. A range whose bounds are out of
  order is an error of the pattern.
\<close>

fun tokens :: "lexeme list \<Rightarrow> token list option"
  and in_class :: "class_item list \<Rightarrow> lexeme list \<Rightarrow> token list option" where
  "tokens [] = Some []"
| "tokens (x # r) =
     (case x of
        Esc c \<Rightarrow> map_option ((#) (TChar c)) (tokens r)
      | Raw c \<Rightarrow>
          if c = CHR ''['' then
            (if next_is (Raw (CHR ''^'')) r \<or> next_is (Raw (CHR '']'')) r then None
             else in_class [] r)
          else if c = CHR ''('' then
            (if next_is (Raw (CHR ''?'')) r then None
             else map_option ((#) TOpen) (tokens r))
          else if c = CHR '')'' then map_option ((#) TClose) (tokens r)
          else if c = CHR ''*'' then map_option ((#) TStar) (tokens r)
          else if c = CHR ''+'' then map_option ((#) TPlus) (tokens r)
          else if c = CHR ''?'' then map_option ((#) TOpt) (tokens r)
          else if c = CHR ''.'' then map_option ((#) TAny) (tokens r)
          else if c = CHR ''^'' \<or> c = CHR ''$'' \<or> c = CHR ''|'' \<or> c = CHR ''{'' then None
          else map_option ((#) (TChar c)) (tokens r))"
| "in_class acc [] = None"
| "in_class acc (x # r) =
     (if x = Raw (CHR '']'') then map_option ((#) (TClass (rev acc))) (tokens r)
      else
        (case r of
           m # y # r' \<Rightarrow>
             if m = Raw (CHR ''-'') \<and> y \<noteq> Raw (CHR '']'') then
               (if (of_char (lexeme_char x) :: nat) \<le> of_char (lexeme_char y)
                then in_class (Range (lexeme_char x) (lexeme_char y) # acc) r'
                else None)
             else in_class (Single (lexeme_char x) # acc) r
         | _ \<Rightarrow> in_class (Single (lexeme_char x) # acc) r))"

fun seq :: "regex list \<Rightarrow> regex" where
  "seq [] = Empty"
| "seq [r] = r"
| "seq (r # rs) = Seq r (seq rs)"

text \<open>
  The parser keeps the atoms of the sequence it is reading (last one first), whether
  the last atom may take a postfix operator (an operator after an operator is
  refused: it would be a lazy or a repeated repetition), the sequences of the groups
  still open with their numbers, and the number of groups opened so far. Groups are
  numbered by their opening parenthesis, from 1.
\<close>

fun parse_tokens ::
  "token list \<Rightarrow> regex list \<Rightarrow> bool \<Rightarrow> (regex list \<times> nat) list \<Rightarrow> nat \<Rightarrow> regex option" where
  "parse_tokens [] cur rep stack n = (if stack = [] then Some (seq (rev cur)) else None)"
| "parse_tokens (TChar c # ts) cur rep stack n = parse_tokens ts (Chr c # cur) True stack n"
| "parse_tokens (TAny # ts) cur rep stack n = parse_tokens ts (AnyChar # cur) True stack n"
| "parse_tokens (TClass items # ts) cur rep stack n =
     parse_tokens ts (CharClass items # cur) True stack n"
| "parse_tokens (TOpen # ts) cur rep stack n =
     parse_tokens ts [] False ((cur, Suc n) # stack) (Suc n)"
| "parse_tokens (TClose # ts) cur rep stack n =
     (case stack of
        [] \<Rightarrow> None
      | (outer, i) # stack' \<Rightarrow>
          parse_tokens ts (Group i (seq (rev cur)) # outer) True stack' n)"
| "parse_tokens (TStar # ts) cur rep stack n =
     (case cur of
        [] \<Rightarrow> None
      | a # cur' \<Rightarrow> if rep then parse_tokens ts (Star a # cur') False stack n else None)"
| "parse_tokens (TPlus # ts) cur rep stack n =
     (case cur of
        [] \<Rightarrow> None
      | a # cur' \<Rightarrow> if rep then parse_tokens ts (Plus a # cur') False stack n else None)"
| "parse_tokens (TOpt # ts) cur rep stack n =
     (case cur of
        [] \<Rightarrow> None
      | a # cur' \<Rightarrow> if rep then parse_tokens ts (Opt a # cur') False stack n else None)"

text \<open>
  Modelled from the spec: reading the pattern is the platform's work (section 6: "a
  text pattern"). \<open>None\<close> is a pattern outside the part of the syntax modelled here.
\<close>

definition parse_regex :: "string \<Rightarrow> regex option" where
  "parse_regex p =
     (case unescape p of
        None \<Rightarrow> None
      | Some ls \<Rightarrow>
          (case tokens ls of
             None \<Rightarrow> None
           | Some ts \<Rightarrow> parse_tokens ts [] False [] 0))"

subsection \<open>Matching\<close>

text \<open>
  A matcher state is the rest of the line and the groups captured so far. Matching a
  pattern at a state gives the states after every way to match, the preferred way
  first.
\<close>

type_synonym mstate = "string \<times> (nat \<times> string) list"

fun in_item :: "char \<Rightarrow> class_item \<Rightarrow> bool" where
  "in_item c (Single a) = (c = a)"
| "in_item c (Range a b) = ((of_char a :: nat) \<le> of_char c \<and> (of_char c :: nat) \<le> of_char b)"

definition step_char :: "(char \<Rightarrow> bool) \<Rightarrow> mstate \<Rightarrow> mstate list" where
  "step_char ok st =
     (case fst st of
        [] \<Rightarrow> []
      | x # xs \<Rightarrow> if ok x then [(xs, snd st)] else [])"

text \<open>
  Greedy repetition: one more round when the round took at least one character, then
  no more rounds.
\<close>

function star_iter :: "(mstate \<Rightarrow> mstate list) \<Rightarrow> mstate \<Rightarrow> mstate list" where
  "star_iter f st =
     concat (map (star_iter f)
       (filter (\<lambda>st'. length (fst st') < length (fst st)) (f st))) @ [st]"
  by pat_completeness auto
termination
  by (relation "measure (\<lambda>(f, st). length (fst st))") auto

definition set_group :: "nat \<Rightarrow> mstate \<Rightarrow> mstate \<Rightarrow> mstate" where
  "set_group i st st' =
     (fst st', (i, take (length (fst st) - length (fst st')) (fst st)) #
        filter (\<lambda>g. fst g \<noteq> i) (snd st'))"

text \<open>
  Modelled from the spec: matching a pattern at the start of a line is the platform's
  work (section 6: "matched against job log lines"). A character class matches one
  character among its items, \<open>.\<close> any character but a newline; a sequence tries the
  ways of its first part in order and, for each, the ways of the rest; a group
  records the text its body took.
\<close>

primrec rmatch :: "regex \<Rightarrow> mstate \<Rightarrow> mstate list" where
  "rmatch (Chr c) st = step_char (\<lambda>x. x = c) st"
| "rmatch AnyChar st = step_char (\<lambda>x. x \<noteq> CHR 0x0A) st"
| "rmatch (CharClass items) st = step_char (\<lambda>x. \<exists>i \<in> set items. in_item x i) st"
| "rmatch Empty st = [st]"
| "rmatch (Seq a b) st = concat (map (rmatch b) (rmatch a st))"
| "rmatch (Star a) st = star_iter (rmatch a) st"
| "rmatch (Plus a) st = concat (map (star_iter (rmatch a)) (rmatch a st))"
| "rmatch (Opt a) st = rmatch a st @ [st]"
| "rmatch (Group i a) st = map (set_group i st) (rmatch a st)"

text \<open>
  Modelled from the spec: the search is the platform's work (section 6: "matched
  against job log lines to pull a scalar metric value"). It gives the groups of the
  leftmost match, if the pattern matches anywhere in the line; \<open>extract_metric\<close>
  reads the pattern and pulls the text of group 1.
\<close>

fun search :: "regex \<Rightarrow> string \<Rightarrow> (nat \<times> string) list option" where
  "search r [] = (case rmatch r ([], []) of [] \<Rightarrow> None | st # _ \<Rightarrow> Some (snd st))"
| "search r (c # cs) =
     (case rmatch r (c # cs, []) of [] \<Rightarrow> search r cs | st # _ \<Rightarrow> Some (snd st))"

definition extract_metric :: "string \<Rightarrow> string \<Rightarrow> string option" where
  "extract_metric pattern line =
     (case parse_regex pattern of
        None \<Rightarrow> None
      | Some r \<Rightarrow>
          (case search r line of
             None \<Rightarrow> None
           | Some groups \<Rightarrow> map_of groups 1))"

text \<open>Every way the pattern matches at the start of a line.\<close>

definition match_at :: "string \<Rightarrow> string \<Rightarrow> mstate list option" where
  "match_at pattern line =
     (case parse_regex pattern of
        None \<Rightarrow> None
      | Some r \<Rightarrow> Some (rmatch r (line, [])))"

text \<open>
  \<open>matches_within pattern pre rest\<close>: in the line \<open>pre @ rest\<close>, the pattern matches
  at a position inside \<open>pre\<close>.
\<close>

fun earlier_match :: "regex \<Rightarrow> string \<Rightarrow> string \<Rightarrow> bool" where
  "earlier_match r [] rest = False"
| "earlier_match r (c # pre) rest =
     (rmatch r (c # pre @ rest, []) \<noteq> [] \<or> earlier_match r pre rest)"

definition matches_within :: "string \<Rightarrow> string \<Rightarrow> string \<Rightarrow> bool" where
  "matches_within pattern pre rest =
     (case parse_regex pattern of
        None \<Rightarrow> False
      | Some r \<Rightarrow> earlier_match r pre rest)"

text \<open>The pattern of the GCN tuning notebook, as \<open>parse_regex\<close> reads it.\<close>

definition gcn_regex_ast :: regex where
  "gcn_regex_ast =
     seq (map Chr ''Test Accuracy '' @
       [Group 1 (Plus (CharClass [Range (CHR ''0'') (CHR ''9''), Single (CHR ''.'')])),
        Chr (CHR ''%'')])"

section \<open>Two clients to run the notebooks against\<close>

text \<open>
  A client whose every call succeeds, and one that refuses every submission. They
  serve as concrete inputs for the properties below, with a third client further
  down.
\<close>

definition demo_session :: session where
  "demo_session = \<lparr>region_name = ''us-east-2''\<rparr>"

definition demo_client :: "string client" where
  "demo_client =
     \<lparr>new_session = Inr demo_session,
      default_bucket = (\<lambda>sess. Inr ''sagemaker-us-east-2-123456789012''),
      get_execution_role = Inr ''arn:aws:iam::123456789012:role/SageMakerRole'',
      upload_data = (\<lambda>sess path bucket prefix. Inr (''s3://'' @ bucket @ ''/'' @ prefix)),
      get_caller_identity = (\<lambda>sess. Inr ''123456789012''),
      build_and_push = (\<lambda>name dockerfile. Inr ()),
      fit_estimator = (\<lambda>j a. Inr ''training-job-1''),
      fit_tuner = (\<lambda>t a. Inr ''tuning-job-1''),
      describe_tuning_job = (\<lambda>name. Inr ''InProgress'')\<rparr>"

definition refusing_client :: "string client" where
  "refusing_client =
     demo_client
       \<lparr>fit_estimator := (\<lambda>j a. Inl ''ResourceLimitExceeded''),
        fit_tuner := (\<lambda>t a. Inl ''ResourceLimitExceeded'')\<rparr>"


section \<open>Properties\<close>

subsection \<open>The image reference\<close>

lemma emit_Inr [simp]: "emit s (Inr t) = Inr (s @ t)"
  by (simp add: emit_def)

lemma emit_Inl [simp]: "emit s (Inl e) = Inl e"
  by (simp add: emit_def)

text \<open>
  C1. For every account \<open>a\<close>, region \<open>r\<close>, repository name \<open>n\<close> and tag \<open>t\<close>, the
  image reference a notebook builds is \<open>a + ".dkr.ecr." + r + ".amazonaws.com/" + n +
  ":" + t\<close>: no formatting error, each component once and in this order. In the
  notebooks whose template ends in \<open>:latest\<close> the tag is \<open>latest\<close>.
\<close>

theorem image_reference_format:
  "image_tagged a r n t =
     Inr (a @ ''.dkr.ecr.'' @ r @ ''.amazonaws.com/'' @ n @ '':'' @ t)
   \<and> image_latest a r n =
     Inr (a @ ''.dkr.ecr.'' @ r @ ''.amazonaws.com/'' @ n @ '':'' @ ''latest'')"
  by (simp add: image_tagged_def image_latest_def image_template_def
      image_template_latest_def)

subsection \<open>Running a notebook\<close>

text \<open>How a call and a formatting step continue a run.\<close>

lemma nb_bind_call:
  "nb_bind (call ev r) f tr =
     (case r of Inl e \<Rightarrow> (Inl (ClientError e), tr @ [ev]) | Inr x \<Rightarrow> f x (tr @ [ev]))"
  by (simp add: nb_bind_def call_def split: sum.splits)

lemma nb_bind_formatted:
  "nb_bind (formatted r) f tr =
     (case r of Inl e \<Rightarrow> (Inl (FormatError e), tr) | Inr x \<Rightarrow> f x tr)"
  by (simp add: nb_bind_def formatted_def split: sum.splits)

lemma call_apply:
  "call ev r tr = (case r of Inl e \<Rightarrow> Inl (ClientError e) | Inr x \<Rightarrow> Inr x, tr @ [ev])"
  by (simp add: call_def)

lemma image_tagged_eq:
  "image_tagged a r n t = Inr (ecr_image a r n t)"
  by (simp add: image_tagged_def image_template_def ecr_image_def)

lemma image_latest_eq:
  "image_latest a r n = Inr (ecr_image a r n ''latest'')"
  by (simp add: image_latest_def image_template_latest_def ecr_image_def)

lemma bucket_format_eq:
  "str_format ''s3://{}/artifacts'' [b] = Inr (''s3://'' @ b @ ''/artifacts'')"
  by simp

lemmas run_simps = nb_bind_call nb_bind_formatted call_apply Let_def submissions_def
  stopped_before_submission_def training_outcome_def tuning_outcome_def

text \<open>
  The outcomes of each notebook: it stops before the submission, or it submits the
  configuration it built from the answers of the client.
\<close>

lemma pytorch_gcn_outcome:
  "stopped_before_submission (pytorch_gcn c) \<or>
   (\<exists>sess role_arn account.
      training_outcome c (pytorch_gcn c)
        (pytorch_gcn_estimator role_arn
           (ecr_image account (region_name sess) ''beta-pytorch-training'' ''1.3.0-py3-gpu-build'') sess)
        no_fit_args)"
  (is "?stop \<or> _")
proof -
  have
    "(case new_session c of
         Inl e \<Rightarrow> ?stop
       | Inr sess \<Rightarrow>
           (case default_bucket c sess of
              Inl e \<Rightarrow> ?stop
            | Inr bucket \<Rightarrow>
                (case get_execution_role c of
                   Inl e \<Rightarrow> ?stop
                 | Inr role_arn \<Rightarrow>
                     (case get_caller_identity c sess of
                        Inl e \<Rightarrow> ?stop
                      | Inr account \<Rightarrow>
                          training_outcome c (pytorch_gcn c)
                            (pytorch_gcn_estimator role_arn
                               (ecr_image account (region_name sess) ''beta-pytorch-training'' ''1.3.0-py3-gpu-build'') sess)
                            no_fit_args))))"
    unfolding pytorch_gcn_def image_tagged_eq
    by (simp add: run_simps split: sum.splits)
  then show ?thesis
    by (auto split: sum.splits)
qed

lemma mxnet_gcn_outcome:
  "stopped_before_submission (mxnet_gcn c) \<or>
   (\<exists>sess role_arn account.
      training_outcome c (mxnet_gcn c)
        (mxnet_gcn_estimator role_arn
           (ecr_image account (region_name sess) ''beta-mxnet-training'' ''1.6.0-py3-gpu-build'') sess)
        no_fit_args)"
  (is "?stop \<or> _")
proof -
  have
    "(case new_session c of
         Inl e \<Rightarrow> ?stop
       | Inr sess \<Rightarrow>
           (case default_bucket c sess of
              Inl e \<Rightarrow> ?stop
            | Inr bucket \<Rightarrow>
                (case get_execution_role c of
                   Inl e \<Rightarrow> ?stop
                 | Inr role_arn \<Rightarrow>
                     (case get_caller_identity c sess of
                        Inl e \<Rightarrow> ?stop
                      | Inr account \<Rightarrow>
                          training_outcome c (mxnet_gcn c)
                            (mxnet_gcn_estimator role_arn
                               (ecr_image account (region_name sess) ''beta-mxnet-training'' ''1.6.0-py3-gpu-build'') sess)
                            no_fit_args))))"
    unfolding mxnet_gcn_def image_tagged_eq
    by (simp add: run_simps split: sum.splits)
  then show ?thesis
    by (auto split: sum.splits)
qed

lemma mxnet_gcmc_outcome:
  "stopped_before_submission (mxnet_gcmc c) \<or>
   (\<exists>sess role_arn account.
      training_outcome c (mxnet_gcmc c)
        (mxnet_gcmc_estimator role_arn
           (ecr_image account (region_name sess) ''sagemaker-dgl-gcmc'' ''latest'') sess)
        no_fit_args)"
  (is "?stop \<or> _")
proof -
  have
    "(case new_session c of
         Inl e \<Rightarrow> ?stop
       | Inr sess \<Rightarrow>
           (case default_bucket c sess of
              Inl e \<Rightarrow> ?stop
            | Inr bucket \<Rightarrow>
                (case get_execution_role c of
                   Inl e \<Rightarrow> ?stop
                 | Inr role_arn \<Rightarrow>
                     (case build_and_push c ''sagemaker-dgl-gcmc'' ''GCMC.Dockerfile'' of
                        Inl e \<Rightarrow> ?stop
                      | Inr built \<Rightarrow>
                          (case get_caller_identity c sess of
                             Inl e \<Rightarrow> ?stop
                           | Inr account \<Rightarrow>
                               training_outcome c (mxnet_gcmc c)
                                 (mxnet_gcmc_estimator role_arn
                                    (ecr_image account (region_name sess) ''sagemaker-dgl-gcmc'' ''latest'') sess)
                                 no_fit_args)))))"
    unfolding mxnet_gcmc_def image_latest_eq bucket_format_eq
    by (simp add: run_simps split: sum.splits)
  then show ?thesis
    by (auto split: sum.splits)
qed

lemma kge_mxnet_outcome:
  "stopped_before_submission (kge_mxnet c) \<or>
   (\<exists>sess role_arn account.
      training_outcome c (kge_mxnet c)
        (kge_mxnet_estimator role_arn
           (ecr_image account (region_name sess) ''sagemaker-dgl-kge-mxnet'' ''latest'') sess)
        kge_mxnet_fit_args)"
  (is "?stop \<or> _")
proof -
  have
    "(case new_session c of
         Inl e \<Rightarrow> ?stop
       | Inr sess \<Rightarrow>
           (case default_bucket c sess of
              Inl e \<Rightarrow> ?stop
            | Inr bucket \<Rightarrow>
                (case get_execution_role c of
                   Inl e \<Rightarrow> ?stop
                 | Inr role_arn \<Rightarrow>
                     (case build_and_push c ''sagemaker-dgl-kge-mxnet'' ''KGE_mxnet.Dockerfile'' of
                        Inl e \<Rightarrow> ?stop
                      | Inr built \<Rightarrow>
                          (case get_caller_identity c sess of
                             Inl e \<Rightarrow> ?stop
                           | Inr account \<Rightarrow>
                               training_outcome c (kge_mxnet c)
                                 (kge_mxnet_estimator role_arn
                                    (ecr_image account (region_name sess) ''sagemaker-dgl-kge-mxnet'' ''latest'') sess)
                                 kge_mxnet_fit_args)))))"
    unfolding kge_mxnet_def image_latest_eq
    by (simp add: run_simps split: sum.splits)
  then show ?thesis
    by (auto split: sum.splits)
qed

lemma pytorch_gcn_tox21_outcome:
  "stopped_before_submission (pytorch_gcn_tox21 c) \<or>
   (\<exists>sess role_arn account code_location.
      code_upload c ''main.py'' = Some (Inr code_location) \<and>
      training_outcome c (pytorch_gcn_tox21 c)
        (tox21_estimator role_arn
           (ecr_image account (region_name sess) ''sagemaker-dgl-pytorch-gcn-tox21'' ''latest'') sess)
        (tox21_fit_args code_location))"
  (is "?stop \<or> _")
proof -
  have
    "(case new_session c of
         Inl e \<Rightarrow> ?stop
       | Inr sess \<Rightarrow>
           (case default_bucket c sess of
              Inl e \<Rightarrow> ?stop
            | Inr bucket \<Rightarrow>
                (case get_execution_role c of
                   Inl e \<Rightarrow> ?stop
                 | Inr role_arn \<Rightarrow>
                     (case build_and_push c ''sagemaker-dgl-pytorch-gcn-tox21'' ''gcn_tox21.Dockerfile'' of
                        Inl e \<Rightarrow> ?stop
                      | Inr built \<Rightarrow>
                          (case upload_data c sess ''main.py'' bucket ''customcode'' of
                             Inl e \<Rightarrow> ?stop
                           | Inr code_location \<Rightarrow>
                               (case get_caller_identity c sess of
                                  Inl e \<Rightarrow> ?stop
                                | Inr account \<Rightarrow>
                                    training_outcome c (pytorch_gcn_tox21 c)
                                      (tox21_estimator role_arn
                                         (ecr_image account (region_name sess) ''sagemaker-dgl-pytorch-gcn-tox21'' ''latest'') sess)
                                      (tox21_fit_args code_location)))))))"
    unfolding pytorch_gcn_tox21_def image_latest_eq custom_code_upload_location_def code_upload_def
    by (simp add: run_simps split: sum.splits)
  then show ?thesis
    by (auto simp: code_upload_def custom_code_upload_location_def split: sum.splits)
qed

lemma pytorch_gcn_hypertune_outcome:
  "stopped_before_submission (pytorch_gcn_hypertune c) \<or>
   (\<exists>sess role_arn account code_location.
      code_upload c ''./'' = Some (Inr code_location) \<and>
      tuning_outcome c (pytorch_gcn_hypertune c)
        (pytorch_gcn_hypertune_tuner
           (pytorch_gcn_hypertune_estimator role_arn
              (ecr_image account (region_name sess) ''beta-pytorch-training'' ''1.3.0-py3-gpu-build'') sess))
        (pytorch_gcn_hypertune_fit_args code_location))"
  (is "?stop \<or> _")
proof -
  have
    "(case new_session c of
         Inl e \<Rightarrow> ?stop
       | Inr sess \<Rightarrow>
           (case default_bucket c sess of
              Inl e \<Rightarrow> ?stop
            | Inr bucket \<Rightarrow>
                (case get_execution_role c of
                   Inl e \<Rightarrow> ?stop
                 | Inr role_arn \<Rightarrow>
                     (case upload_data c sess ''./'' bucket ''customcode'' of
                        Inl e \<Rightarrow> ?stop
                      | Inr code_location \<Rightarrow>
                          (case get_caller_identity c sess of
                             Inl e \<Rightarrow> ?stop
                           | Inr account \<Rightarrow>
                               tuning_outcome c (pytorch_gcn_hypertune c)
                                 (pytorch_gcn_hypertune_tuner
                                    (pytorch_gcn_hypertune_estimator role_arn
                                       (ecr_image account (region_name sess) ''beta-pytorch-training'' ''1.3.0-py3-gpu-build'') sess))
                                 (pytorch_gcn_hypertune_fit_args code_location))))))"
    unfolding pytorch_gcn_hypertune_def image_tagged_eq custom_code_upload_location_def code_upload_def
    by (simp add: run_simps split: sum.splits)
  then show ?thesis
    by (auto simp: code_upload_def custom_code_upload_location_def split: sum.splits)
qed

lemma pytorch_gcn_tox21_hypertune_outcome:
  "stopped_before_submission (pytorch_gcn_tox21_hypertune c) \<or>
   (\<exists>sess role_arn account code_location.
      code_upload c ''main.py'' = Some (Inr code_location) \<and>
      tuning_outcome c (pytorch_gcn_tox21_hypertune c)
        (tox21_tuner
           (tox21_estimator role_arn
              (ecr_image account (region_name sess) ''sagemaker-dgl-pytorch-gcn-tox21'' ''latest'') sess))
        (tox21_fit_args code_location))"
  (is "?stop \<or> _")
proof -
  have
    "(case new_session c of
         Inl e \<Rightarrow> ?stop
       | Inr sess \<Rightarrow>
           (case default_bucket c sess of
              Inl e \<Rightarrow> ?stop
            | Inr bucket \<Rightarrow>
                (case get_execution_role c of
                   Inl e \<Rightarrow> ?stop
                 | Inr role_arn \<Rightarrow>
                     (case upload_data c sess ''main.py'' bucket ''customcode'' of
                        Inl e \<Rightarrow> ?stop
                      | Inr code_location \<Rightarrow>
                          (case get_caller_identity c sess of
                             Inl e \<Rightarrow> ?stop
                           | Inr account \<Rightarrow>
                               tuning_outcome c (pytorch_gcn_tox21_hypertune c)
                                 (tox21_tuner
                                    (tox21_estimator role_arn
                                       (ecr_image account (region_name sess) ''sagemaker-dgl-pytorch-gcn-tox21'' ''latest'') sess))
                                 (tox21_fit_args code_location))))))"
    unfolding pytorch_gcn_tox21_hypertune_def image_latest_eq custom_code_upload_location_def code_upload_def
    by (simp add: run_simps split: sum.splits)
  then show ?thesis
    by (auto simp: code_upload_def custom_code_upload_location_def split: sum.splits)
qed


subsection \<open>The hyperparameters that are submitted\<close>

lemmas outcome_defs = stopped_before_submission_def training_outcome_def tuning_outcome_def

lemma kge_mxnet_params_eq:
  "kge_mxnet_params =
     [(''dataset'', PStr ''FB15k''), (''model'', PStr ''DistMult''),
      (''batch_size'', PInt 1024), (''neg_sample_size'', PInt 256),
      (''hidden_dim'', PInt 2000), (''gamma'', PFloat ''500.0''),
      (''lr'', PFloat ''0.1''), (''max_step'', PInt 100000),
      (''batch_size_eval'', PInt 16), (''valid'', PBool True),
      (''test'', PBool True), (''neg_adversarial_sampling'', PBool True)]"
  by (simp add: kge_mxnet_params_def)

text \<open>
  C2. In every notebook the hyperparameter mapping of the job configuration that is
  submitted is the mapping the notebook assembled, key by key and value by value, in
  the order of the assignments: no key is added or dropped and no value changes its
  type between the construction and the submission. (For a tuning notebook the
  configuration is the one the tuner wraps.)
\<close>

theorem hyperparameters_as_assembled:
  "(\<forall>ev \<in> set (submissions (snd (pytorch_gcn c))).
      map_option hyperparameters (submitted_config ev) = Some [(''dataset'', PStr ''cora'')])
   \<and> (\<forall>ev \<in> set (submissions (snd (mxnet_gcn c))).
      map_option hyperparameters (submitted_config ev) = Some [(''dataset'', PStr ''cora'')])
   \<and> (\<forall>ev \<in> set (submissions (snd (mxnet_gcmc c))).
      map_option hyperparameters (submitted_config ev) =
        Some [(''data_name'', PStr ''ml-1m''), (''save_dir'', PStr ''/opt/ml/model/'')])
   \<and> (\<forall>ev \<in> set (submissions (snd (kge_mxnet c))).
      map_option hyperparameters (submitted_config ev) =
        Some [(''dataset'', PStr ''FB15k''), (''model'', PStr ''DistMult''),
              (''batch_size'', PInt 1024), (''neg_sample_size'', PInt 256),
              (''hidden_dim'', PInt 2000), (''gamma'', PFloat ''500.0''),
              (''lr'', PFloat ''0.1''), (''max_step'', PInt 100000),
              (''batch_size_eval'', PInt 16), (''valid'', PBool True),
              (''test'', PBool True), (''neg_adversarial_sampling'', PBool True)])
   \<and> (\<forall>ev \<in> set (submissions (snd (pytorch_gcn_tox21 c))).
      map_option hyperparameters (submitted_config ev) = Some [(''entrypoint'', PStr ''main.py'')])
   \<and> (\<forall>ev \<in> set (submissions (snd (pytorch_gcn_hypertune c))).
      map_option hyperparameters (submitted_config ev) = Some [(''dataset'', PStr ''cora'')])
   \<and> (\<forall>ev \<in> set (submissions (snd (pytorch_gcn_tox21_hypertune c))).
      map_option hyperparameters (submitted_config ev) = Some [(''entrypoint'', PStr ''main.py'')])"
proof (intro conjI)
  show "\<forall>ev \<in> set (submissions (snd (pytorch_gcn c))).
      map_option hyperparameters (submitted_config ev) = Some [(''dataset'', PStr ''cora'')]"
    using pytorch_gcn_outcome [of c]
    by (auto simp: outcome_defs pytorch_gcn_estimator_def pytorch_gcn_params_def)
  show "\<forall>ev \<in> set (submissions (snd (mxnet_gcn c))).
      map_option hyperparameters (submitted_config ev) = Some [(''dataset'', PStr ''cora'')]"
    using mxnet_gcn_outcome [of c]
    by (auto simp: outcome_defs mxnet_gcn_estimator_def mxnet_gcn_params_def)
  show "\<forall>ev \<in> set (submissions (snd (mxnet_gcmc c))).
      map_option hyperparameters (submitted_config ev) =
        Some [(''data_name'', PStr ''ml-1m''), (''save_dir'', PStr ''/opt/ml/model/'')]"
    using mxnet_gcmc_outcome [of c]
    by (auto simp: outcome_defs mxnet_gcmc_estimator_def mxnet_gcmc_params_def)
  show "\<forall>ev \<in> set (submissions (snd (kge_mxnet c))).
      map_option hyperparameters (submitted_config ev) =
        Some [(''dataset'', PStr ''FB15k''), (''model'', PStr ''DistMult''),
              (''batch_size'', PInt 1024), (''neg_sample_size'', PInt 256),
              (''hidden_dim'', PInt 2000), (''gamma'', PFloat ''500.0''),
              (''lr'', PFloat ''0.1''), (''max_step'', PInt 100000),
              (''batch_size_eval'', PInt 16), (''valid'', PBool True),
              (''test'', PBool True), (''neg_adversarial_sampling'', PBool True)]"
    using kge_mxnet_outcome [of c]
    by (auto simp: outcome_defs kge_mxnet_estimator_def kge_mxnet_params_eq)
  show "\<forall>ev \<in> set (submissions (snd (pytorch_gcn_tox21 c))).
      map_option hyperparameters (submitted_config ev) = Some [(''entrypoint'', PStr ''main.py'')]"
    using pytorch_gcn_tox21_outcome [of c]
    by (auto simp: outcome_defs tox21_estimator_def)
  show "\<forall>ev \<in> set (submissions (snd (pytorch_gcn_hypertune c))).
      map_option hyperparameters (submitted_config ev) = Some [(''dataset'', PStr ''cora'')]"
    using pytorch_gcn_hypertune_outcome [of c]
    by (auto simp: outcome_defs pytorch_gcn_hypertune_tuner_def HyperparameterTuner_def
        pytorch_gcn_hypertune_estimator_def pytorch_gcn_hypertune_params_def)
  show "\<forall>ev \<in> set (submissions (snd (pytorch_gcn_tox21_hypertune c))).
      map_option hyperparameters (submitted_config ev) = Some [(''entrypoint'', PStr ''main.py'')]"
    using pytorch_gcn_tox21_hypertune_outcome [of c]
    by (auto simp: outcome_defs tox21_tuner_def HyperparameterTuner_def tox21_estimator_def)
qed

lemma demo_submits:
  "submissions (snd (pytorch_gcn demo_client)) \<noteq> []"
  "submissions (snd (mxnet_gcn demo_client)) \<noteq> []"
  "submissions (snd (mxnet_gcmc demo_client)) \<noteq> []"
  "submissions (snd (kge_mxnet demo_client)) \<noteq> []"
  "submissions (snd (pytorch_gcn_tox21 demo_client)) \<noteq> []"
  "submissions (snd (pytorch_gcn_hypertune demo_client)) \<noteq> []"
  "submissions (snd (pytorch_gcn_tox21_hypertune demo_client)) \<noteq> []"
  by (simp_all add: pytorch_gcn_def mxnet_gcn_def mxnet_gcmc_def kge_mxnet_def
      pytorch_gcn_tox21_def pytorch_gcn_hypertune_def pytorch_gcn_tox21_hypertune_def
      nb_bind_call nb_bind_formatted call_apply image_tagged_eq image_latest_eq
      Let_def submissions_def demo_client_def)

lemma refusing_submits:
  "submissions (snd (pytorch_gcn refusing_client)) \<noteq> []"
  "submissions (snd (pytorch_gcn_hypertune refusing_client)) \<noteq> []"
  by (simp_all add: pytorch_gcn_def pytorch_gcn_hypertune_def
      nb_bind_call nb_bind_formatted call_apply image_tagged_eq image_latest_eq
      Let_def submissions_def demo_client_def refusing_client_def)

lemma some_element: "xs \<noteq> [] \<Longrightarrow> \<forall>x \<in> set xs. P x \<Longrightarrow> \<exists>x \<in> set xs. P x"
  by (cases xs) auto

text \<open>Against the client that grants every call, the runs do submit.\<close>

theorem hyperparameters_as_assembled_witness:
  "(\<exists>ev \<in> set (submissions (snd (kge_mxnet demo_client))).
      map_option hyperparameters (submitted_config ev) =
        Some [(''dataset'', PStr ''FB15k''), (''model'', PStr ''DistMult''),
              (''batch_size'', PInt 1024), (''neg_sample_size'', PInt 256),
              (''hidden_dim'', PInt 2000), (''gamma'', PFloat ''500.0''),
              (''lr'', PFloat ''0.1''), (''max_step'', PInt 100000),
              (''batch_size_eval'', PInt 16), (''valid'', PBool True),
              (''test'', PBool True), (''neg_adversarial_sampling'', PBool True)])
   \<and> (\<exists>ev \<in> set (submissions (snd (pytorch_gcn_hypertune demo_client))).
      map_option hyperparameters (submitted_config ev) = Some [(''dataset'', PStr ''cora'')])"
  using hyperparameters_as_assembled [of demo_client]
  by (intro conjI some_element demo_submits) simp_all

subsection \<open>The limits of a tuning configuration\<close>

text \<open>
  C3. In both tuning notebooks, every tuning configuration that is submitted has
  \<open>max_parallel_jobs = 2\<close> and \<open>max_jobs = 6\<close>, so the parallel jobs are at most the
  total jobs.
\<close>

theorem tuning_parallel_le_total:
  "\<forall>run \<in> set (tuning_notebooks c). \<forall>ev \<in> set (submissions (snd run)).
     \<exists>t. submitted_tuner ev = Some t \<and> max_parallel_jobs t = 2 \<and> max_jobs t = 6 \<and>
         max_parallel_jobs t \<le> max_jobs t"
  using pytorch_gcn_hypertune_outcome [of c] pytorch_gcn_tox21_hypertune_outcome [of c]
  by (auto simp: tuning_notebooks_def outcome_defs pytorch_gcn_hypertune_tuner_def
      tox21_tuner_def HyperparameterTuner_def)

theorem tuning_parallel_le_total_witness:
  "\<exists>ev \<in> set (submissions (snd (pytorch_gcn_hypertune demo_client))).
     \<exists>t. submitted_tuner ev = Some t \<and> max_parallel_jobs t = 2 \<and> max_jobs t = 6 \<and>
         max_parallel_jobs t \<le> max_jobs t"
  using tuning_parallel_le_total [of demo_client]
  by (intro some_element demo_submits) (simp add: tuning_notebooks_def)

subsection \<open>A submission that fails\<close>

lemma propagates_training:
  assumes "stopped_before_submission run \<or> (\<exists>est args. training_outcome c run est args)"
  shows "\<forall>ev \<in> set (submissions (snd run)). \<forall>e.
     answer_of c ev = Some (Inl e) \<longrightarrow>
       fst run = Inl (ClientError e) \<and> last (snd run) = ev \<and> submissions (snd run) = [ev]"
  using assms by (auto simp: outcome_defs)

lemma propagates_tuning:
  assumes "stopped_before_submission run \<or> (\<exists>t args. tuning_outcome c run t args)"
  shows "\<forall>ev \<in> set (submissions (snd run)). \<forall>e.
     answer_of c ev = Some (Inl e) \<longrightarrow>
       fst run = Inl (ClientError e) \<and> last (snd run) = ev \<and> submissions (snd run) = [ev]"
  using assms by (auto simp: outcome_defs)

lemma training_runs:
  "\<forall>run \<in> set (training_notebooks c).
     stopped_before_submission run \<or> (\<exists>est args. training_outcome c run est args)"
  unfolding training_notebooks_def
  using pytorch_gcn_outcome [of c] mxnet_gcn_outcome [of c] mxnet_gcmc_outcome [of c]
    kge_mxnet_outcome [of c] pytorch_gcn_tox21_outcome [of c]
  by (simp del: ex_simps) blast

lemma tuning_runs:
  "\<forall>run \<in> set (tuning_notebooks c).
     stopped_before_submission run \<or> (\<exists>t args. tuning_outcome c run t args)"
  unfolding tuning_notebooks_def
  using pytorch_gcn_hypertune_outcome [of c] pytorch_gcn_tox21_hypertune_outcome [of c]
  by (simp del: ex_simps) blast

text \<open>
  C5. No notebook handles an error of the submission. Whenever the client refuses a
  submission with an error \<open>e\<close>, the run ends with exactly \<open>e\<close>; the refused call
  is the last call of the run and its only submission: nothing is retried and
  nothing is done to recover.
\<close>

theorem submission_failure_propagates:
  "\<forall>run \<in> set (all_notebooks c). \<forall>ev \<in> set (submissions (snd run)). \<forall>e.
     answer_of c ev = Some (Inl e) \<longrightarrow>
       fst run = Inl (ClientError e) \<and> last (snd run) = ev \<and> submissions (snd run) = [ev]"
proof
  fix run assume "run \<in> set (all_notebooks c)"
  then consider "run \<in> set (training_notebooks c)" | "run \<in> set (tuning_notebooks c)"
    by (auto simp: all_notebooks_def)
  then show "\<forall>ev \<in> set (submissions (snd run)). \<forall>e.
     answer_of c ev = Some (Inl e) \<longrightarrow>
       fst run = Inl (ClientError e) \<and> last (snd run) = ev \<and> submissions (snd run) = [ev]"
  proof cases
    case 1
    with training_runs show ?thesis by (intro propagates_training) blast
  next
    case 2
    with tuning_runs show ?thesis by (intro propagates_tuning) blast
  qed
qed

theorem submission_failure_propagates_witness:
  "\<exists>ev \<in> set (submissions (snd (pytorch_gcn refusing_client))).
     answer_of refusing_client ev = Some (Inl ''ResourceLimitExceeded'') \<and>
     fst (pytorch_gcn refusing_client) = Inl (ClientError ''ResourceLimitExceeded'') \<and>
     last (snd (pytorch_gcn refusing_client)) = ev \<and>
     submissions (snd (pytorch_gcn refusing_client)) = [ev]"
proof -
  have answers: "\<forall>ev \<in> set (submissions (snd (pytorch_gcn refusing_client))).
      answer_of refusing_client ev = Some (Inl ''ResourceLimitExceeded'')"
    by (simp add: pytorch_gcn_def nb_bind_call nb_bind_formatted call_apply image_tagged_eq
        Let_def submissions_def demo_client_def refusing_client_def)
  have "\<forall>ev \<in> set (submissions (snd (pytorch_gcn refusing_client))).
      answer_of refusing_client ev = Some (Inl ''ResourceLimitExceeded'') \<and>
      fst (pytorch_gcn refusing_client) = Inl (ClientError ''ResourceLimitExceeded'') \<and>
      last (snd (pytorch_gcn refusing_client)) = ev \<and>
      submissions (snd (pytorch_gcn refusing_client)) = [ev]"
    using answers submission_failure_propagates [of refusing_client]
    by (simp add: all_notebooks_def training_notebooks_def)
  then show ?thesis
    by (rule some_element [OF refusing_submits(1)])
qed

subsection \<open>One job per run\<close>














subsection \<open>The direction of a tuning configuration\<close>

lemma tuner_at_submission:
  assumes "stopped_before_submission run \<or> (\<exists>est args. tuning_outcome c run (T est) args)"
    and "\<And>est. P (T est)"
  shows "\<forall>ev \<in> set (submissions (snd run)). \<exists>t. submitted_tuner ev = Some t \<and> P t"
  using assms by (auto simp: outcome_defs)

lemma tuner_eqs:
  "pytorch_gcn_hypertune_tuner est =
     HyperparameterTuner est ''Validation-accuracy'' gcn_hyperparameter_ranges
       gcn_metric_definitions 6 2 None"
  "tox21_tuner est =
     HyperparameterTuner est ''Validation_roc_auc'' tox21_hyper_ranges
       tox21_metric_definitions 6 2 None"
  by (simp_all add: pytorch_gcn_hypertune_tuner_def tox21_tuner_def)

lemma tuner_of_notebook:
  assumes "\<And>est. P (pytorch_gcn_hypertune_tuner est)" and "\<And>est. P (tox21_tuner est)"
  shows "\<forall>run \<in> set (tuning_notebooks c). \<forall>ev \<in> set (submissions (snd run)).
           \<exists>t. submitted_tuner ev = Some t \<and> P t"
proof -
  have "\<forall>ev \<in> set (submissions (snd (pytorch_gcn_hypertune c))).
          \<exists>t. submitted_tuner ev = Some t \<and> P t"
    using pytorch_gcn_hypertune_outcome [of c]
    by (intro tuner_at_submission [where T = pytorch_gcn_hypertune_tuner] assms) blast
  moreover have "\<forall>ev \<in> set (submissions (snd (pytorch_gcn_tox21_hypertune c))).
          \<exists>t. submitted_tuner ev = Some t \<and> P t"
    using pytorch_gcn_tox21_hypertune_outcome [of c]
    by (intro tuner_at_submission [where T = tox21_tuner] assms) blast
  ultimately show ?thesis
    by (simp add: tuning_notebooks_def)
qed

text \<open>
  C7. A tuning configuration constructed without a direction has the direction
  maximize; both tuning notebooks construct theirs this way (six jobs, two in
  parallel, no direction), so the configuration they submit maximizes.
\<close>

theorem tuning_direction_defaults_to_maximize:
  "objective_type (HyperparameterTuner est name ranges defs jobs parallel None) = Maximize \<and>
   (\<forall>run \<in> set (tuning_notebooks c). \<forall>ev \<in> set (submissions (snd run)).
      \<exists>t. submitted_tuner ev = Some t \<and>
        (objective_type t = Maximize \<and>
         (\<exists>est name ranges defs. t = HyperparameterTuner est name ranges defs 6 2 None)))"
proof
  show "objective_type (HyperparameterTuner est name ranges defs jobs parallel None) = Maximize"
    by (simp add: HyperparameterTuner_def)
  show "\<forall>run \<in> set (tuning_notebooks c). \<forall>ev \<in> set (submissions (snd run)).
      \<exists>t. submitted_tuner ev = Some t \<and>
        (objective_type t = Maximize \<and>
         (\<exists>est name ranges defs. t = HyperparameterTuner est name ranges defs 6 2 None))"
  proof (rule tuner_of_notebook)
    fix est
    show "objective_type (pytorch_gcn_hypertune_tuner est) = Maximize \<and>
      (\<exists>est' name ranges defs.
         pytorch_gcn_hypertune_tuner est = HyperparameterTuner est' name ranges defs 6 2 None)"
      by (metis tuner_eqs(1) HyperparameterTuner_def option.simps(4) tuning_config.select_convs(7))
    show "objective_type (tox21_tuner est) = Maximize \<and>
      (\<exists>est' name ranges defs.
         tox21_tuner est = HyperparameterTuner est' name ranges defs 6 2 None)"
      by (metis tuner_eqs(2) HyperparameterTuner_def option.simps(4) tuning_config.select_convs(7))
  qed
qed

text \<open>The tuner the tox21 tuning notebook submits to the client that grants every call.\<close>

theorem tuning_direction_defaults_to_maximize_witness:
  "\<exists>ev \<in> set (submissions (snd (pytorch_gcn_tox21_hypertune demo_client))).
      \<exists>t. submitted_tuner ev = Some t \<and>
        (objective_type t = Maximize \<and>
         (\<exists>est name ranges defs. t = HyperparameterTuner est name ranges defs 6 2 None))"
  using tuning_direction_defaults_to_maximize [of _ _ _ _ _ _ demo_client]
  by (intro some_element demo_submits) (simp add: tuning_notebooks_def)

subsection \<open>Data channels\<close>

lemma args_at_submission:
  assumes "stopped_before_submission run \<or>
           (\<exists>est args. training_outcome c run est args \<and> P args) \<or>
           (\<exists>t args. tuning_outcome c run t args \<and> P args)"
  shows "\<forall>ev \<in> set (submissions (snd run)). \<exists>a. submitted_args ev = Some a \<and> P a"
  using assms by (auto simp: outcome_defs)

lemma channel_args:
  "inputs (tox21_fit_args loc) = Some [(''training-code'', loc)]"
  "inputs (pytorch_gcn_hypertune_fit_args loc) = Some [(''training-code'', loc)]"
  "inputs no_fit_args = None"
  "inputs kge_mxnet_fit_args = None"
  by (simp_all add: tox21_fit_args_def pytorch_gcn_hypertune_fit_args_def no_fit_args_def
      kge_mxnet_fit_args_def)

text \<open>
  C8. The three notebooks that pass data channels to the submission
  (\<open>pytorch_gcn_hypertune\<close> and the two tox21 notebooks) pass exactly one channel,
  named \<open>training-code\<close>, and its value is the location the client answered to the
  notebook's upload of its code. The other four notebooks pass no channels.
\<close>

theorem channels_bind_training_code:
  "(\<forall>ev \<in> set (submissions (snd (pytorch_gcn_hypertune c))).
      \<exists>a. submitted_args ev = Some a \<and>
        (\<exists>loc. inputs a = Some [(''training-code'', loc)] \<and>
           code_upload c ''./'' = Some (Inr loc)))
   \<and> (\<forall>ev \<in> set (submissions (snd (pytorch_gcn_tox21 c))).
      \<exists>a. submitted_args ev = Some a \<and>
        (\<exists>loc. inputs a = Some [(''training-code'', loc)] \<and>
           code_upload c ''main.py'' = Some (Inr loc)))
   \<and> (\<forall>ev \<in> set (submissions (snd (pytorch_gcn_tox21_hypertune c))).
      \<exists>a. submitted_args ev = Some a \<and>
        (\<exists>loc. inputs a = Some [(''training-code'', loc)] \<and>
           code_upload c ''main.py'' = Some (Inr loc)))
   \<and> (\<forall>run \<in> set [pytorch_gcn c, mxnet_gcn c, mxnet_gcmc c, kge_mxnet c].
        \<forall>ev \<in> set (submissions (snd run)).
          \<exists>a. submitted_args ev = Some a \<and> inputs a = None)"
proof (intro conjI)
  show "\<forall>ev \<in> set (submissions (snd (pytorch_gcn_hypertune c))).
      \<exists>a. submitted_args ev = Some a \<and>
        (\<exists>loc. inputs a = Some [(''training-code'', loc)] \<and>
           code_upload c ''./'' = Some (Inr loc))"
    using pytorch_gcn_hypertune_outcome [of c] channel_args(2)
    by (intro args_at_submission) blast
  show "\<forall>ev \<in> set (submissions (snd (pytorch_gcn_tox21 c))).
      \<exists>a. submitted_args ev = Some a \<and>
        (\<exists>loc. inputs a = Some [(''training-code'', loc)] \<and>
           code_upload c ''main.py'' = Some (Inr loc))"
    using pytorch_gcn_tox21_outcome [of c] channel_args(1)
    by (intro args_at_submission) blast
  show "\<forall>ev \<in> set (submissions (snd (pytorch_gcn_tox21_hypertune c))).
      \<exists>a. submitted_args ev = Some a \<and>
        (\<exists>loc. inputs a = Some [(''training-code'', loc)] \<and>
           code_upload c ''main.py'' = Some (Inr loc))"
    using pytorch_gcn_tox21_hypertune_outcome [of c] channel_args(1)
    by (intro args_at_submission) blast
  have "\<forall>ev \<in> set (submissions (snd (pytorch_gcn c))).
          \<exists>a. submitted_args ev = Some a \<and> inputs a = None"
    using pytorch_gcn_outcome [of c] channel_args(3)
    by (intro args_at_submission) blast
  moreover have "\<forall>ev \<in> set (submissions (snd (mxnet_gcn c))).
          \<exists>a. submitted_args ev = Some a \<and> inputs a = None"
    using mxnet_gcn_outcome [of c] channel_args(3)
    by (intro args_at_submission) blast
  moreover have "\<forall>ev \<in> set (submissions (snd (mxnet_gcmc c))).
          \<exists>a. submitted_args ev = Some a \<and> inputs a = None"
    using mxnet_gcmc_outcome [of c] channel_args(3)
    by (intro args_at_submission) blast
  moreover have "\<forall>ev \<in> set (submissions (snd (kge_mxnet c))).
          \<exists>a. submitted_args ev = Some a \<and> inputs a = None"
    using kge_mxnet_outcome [of c] channel_args(4)
    by (intro args_at_submission) blast
  ultimately show "\<forall>run \<in> set [pytorch_gcn c, mxnet_gcn c, mxnet_gcmc c, kge_mxnet c].
        \<forall>ev \<in> set (submissions (snd run)).
          \<exists>a. submitted_args ev = Some a \<and> inputs a = None"
    by simp
qed

lemma demo_upload:
  "code_upload demo_client path =
     Some (Inr (''s3://sagemaker-us-east-2-123456789012/customcode''))"
  by (simp add: code_upload_def demo_client_def custom_code_upload_location_def)

text \<open>The channel of the tox21 notebook run against the client that grants every call.\<close>

theorem channels_bind_training_code_witness:
  "\<exists>ev \<in> set (submissions (snd (pytorch_gcn_tox21 demo_client))).
      \<exists>a. submitted_args ev = Some a \<and>
        inputs a = Some [(''training-code'', ''s3://sagemaker-us-east-2-123456789012/customcode'')]"
  using channels_bind_training_code [of demo_client]
  by (intro some_element demo_submits) (simp add: demo_upload)

subsection \<open>The entry point of the tox21 notebooks\<close>


lemma tuner_estimator:
  "estimator (pytorch_gcn_hypertune_tuner est) = est"
  "estimator (tox21_tuner est) = est"
  by (simp_all add: tuner_eqs HyperparameterTuner_def)



subsection \<open>Tuned and fixed hyperparameters\<close>

lemma tuner_keys:
  "keys (hyperparameter_ranges (pytorch_gcn_hypertune_tuner est)) = [''lr'', ''n-epochs'']"
  "keys (hyperparameter_ranges (tox21_tuner est)) = [''lr'', ''patience'', ''n_hidden'']"
  "keys (hyperparameters (pytorch_gcn_hypertune_estimator r i s)) = [''dataset'']"
  "keys (hyperparameters (tox21_estimator r i s)) = [''entrypoint'']"
  by (simp_all add: tuner_eqs HyperparameterTuner_def keys_def gcn_hyperparameter_ranges_def
      tox21_hyper_ranges_def pytorch_gcn_hypertune_estimator_def
      pytorch_gcn_hypertune_params_def tox21_estimator_def)

text \<open>
  C10. In each tuning notebook the keys of the hyperparameter ranges given to the
  tuner are disjoint from the keys of the fixed hyperparameters of the wrapped job
  configuration: \<open>lr\<close>, \<open>n-epochs\<close> against \<open>dataset\<close>, and \<open>lr\<close>, \<open>patience\<close>,
  \<open>n_hidden\<close> against \<open>entrypoint\<close>.
\<close>

theorem tuned_and_fixed_keys_disjoint:
  "(\<forall>ev \<in> set (submissions (snd (pytorch_gcn_hypertune c))).
      \<exists>t. submitted_tuner ev = Some t \<and>
        (set (keys (hyperparameter_ranges t)) = {''lr'', ''n-epochs''} \<and>
         set (keys (hyperparameters (estimator t))) = {''dataset''} \<and>
         set (keys (hyperparameter_ranges t)) \<inter> set (keys (hyperparameters (estimator t))) = {}))
   \<and> (\<forall>ev \<in> set (submissions (snd (pytorch_gcn_tox21_hypertune c))).
      \<exists>t. submitted_tuner ev = Some t \<and>
        (set (keys (hyperparameter_ranges t)) = {''lr'', ''patience'', ''n_hidden''} \<and>
         set (keys (hyperparameters (estimator t))) = {''entrypoint''} \<and>
         set (keys (hyperparameter_ranges t)) \<inter> set (keys (hyperparameters (estimator t))) = {}))"
proof
  show "\<forall>ev \<in> set (submissions (snd (pytorch_gcn_hypertune c))).
      \<exists>t. submitted_tuner ev = Some t \<and>
        (set (keys (hyperparameter_ranges t)) = {''lr'', ''n-epochs''} \<and>
         set (keys (hyperparameters (estimator t))) = {''dataset''} \<and>
         set (keys (hyperparameter_ranges t)) \<inter> set (keys (hyperparameters (estimator t))) = {})"
    using pytorch_gcn_hypertune_outcome [of c]
    by (auto simp: outcome_defs tuner_keys tuner_estimator)
  show "\<forall>ev \<in> set (submissions (snd (pytorch_gcn_tox21_hypertune c))).
      \<exists>t. submitted_tuner ev = Some t \<and>
        (set (keys (hyperparameter_ranges t)) = {''lr'', ''patience'', ''n_hidden''} \<and>
         set (keys (hyperparameters (estimator t))) = {''entrypoint''} \<and>
         set (keys (hyperparameter_ranges t)) \<inter> set (keys (hyperparameters (estimator t))) = {})"
    using pytorch_gcn_tox21_hypertune_outcome [of c]
    by (auto simp: outcome_defs tuner_keys tuner_estimator)
qed

text \<open>The tuners both tuning notebooks submit to the client that grants every call.\<close>

theorem tuned_and_fixed_keys_disjoint_witness:
  "(\<exists>ev \<in> set (submissions (snd (pytorch_gcn_hypertune demo_client))).
      \<exists>t. submitted_tuner ev = Some t \<and>
        (set (keys (hyperparameter_ranges t)) = {''lr'', ''n-epochs''} \<and>
         set (keys (hyperparameters (estimator t))) = {''dataset''} \<and>
         set (keys (hyperparameter_ranges t)) \<inter> set (keys (hyperparameters (estimator t))) = {}))
   \<and> (\<exists>ev \<in> set (submissions (snd (pytorch_gcn_tox21_hypertune demo_client))).
      \<exists>t. submitted_tuner ev = Some t \<and>
        (set (keys (hyperparameter_ranges t)) = {''lr'', ''patience'', ''n_hidden''} \<and>
         set (keys (hyperparameters (estimator t))) = {''entrypoint''} \<and>
         set (keys (hyperparameter_ranges t)) \<inter> set (keys (hyperparameters (estimator t))) = {}))"
  using tuned_and_fixed_keys_disjoint [of demo_client]
  by (intro conjI some_element demo_submits) simp_all

subsection \<open>Metric extraction\<close>

lemma gcn_regex_parses:
  "parse_regex gcn_metric_regex = Some gcn_regex_ast"
  by (simp add: parse_regex_def gcn_metric_regex_def backslash_def is_alnum_def next_is_def
      gcn_regex_ast_def)

lemma gcn_match_here:
  "rmatch gcn_regex_ast (''Test Accuracy 91.2%'' @ post, []) = [(post, [(1, ''91.2'')])]"
  by (simp add: gcn_regex_ast_def step_char_def set_group_def)

lemma search_skip:
  "\<not> earlier_match r pre s \<Longrightarrow> search r (pre @ s) = search r s"
  by (induction pre) auto

lemma search_some:
  "rmatch r (s, []) \<noteq> [] \<Longrightarrow> \<exists>groups. search r (pre @ s) = Some groups"
proof (induction pre)
  case Nil
  then show ?case by (cases s; cases "rmatch r (s, [])") auto
next
  case (Cons c pre)
  then show ?case by (cases "rmatch r (c # pre @ s, [])") auto
qed

lemma search_result:
  "search r line = Some groups \<Longrightarrow> \<exists>s st. st \<in> set (rmatch r (s, [])) \<and> groups = snd st"
proof (induction line)
  case Nil
  then obtain st rest where "rmatch r ([], []) = st # rest" "groups = snd st"
    by (cases "rmatch r ([], [])") auto
  then have "st \<in> set (rmatch r ([], []))" by simp
  with \<open>groups = snd st\<close> show ?case by blast
next
  case (Cons c line)
  show ?case
  proof (cases "rmatch r (c # line, [])")
    case Nil
    with Cons show ?thesis by simp
  next
    case (Cons st rest)
    with Cons.prems have "groups = snd st" by simp
    moreover from Cons have "st \<in> set (rmatch r (c # line, []))" by simp
    ultimately show ?thesis by blast
  qed
qed

lemma rmatch_Seq_iff:
  "st' \<in> set (rmatch (Seq a b) st) \<longleftrightarrow> (\<exists>m \<in> set (rmatch a st). st' \<in> set (rmatch b m))"
  by auto

lemma rmatch_Chr_groups:
  "st' \<in> set (rmatch (Chr c) st) \<Longrightarrow> snd st' = snd st"
  by (auto simp: step_char_def split: list.splits if_splits)

lemma rmatch_Group_sets:
  "st' \<in> set (rmatch (Group i a) st) \<Longrightarrow> \<exists>v. map_of (snd st') i = Some v"
  by (auto simp: set_group_def)

lemma gcn_group_1:
  assumes "st' \<in> set (rmatch gcn_regex_ast st)"
  shows "\<exists>v. map_of (snd st') 1 = Some v"
proof -
  define body where
    "body = Group 1 (Plus (CharClass [Range (CHR ''0'') (CHR ''9''), Single (CHR ''.'')]))"
  from assms obtain m m' where
    "m \<in> set (rmatch body m')" "st' \<in> set (rmatch (Chr (CHR ''%'')) m)"
    unfolding gcn_regex_ast_def body_def [symmetric]
    by (simp del: rmatch.simps add: rmatch_Seq_iff) blast
  then show ?thesis
    using rmatch_Group_sets [of m 1] rmatch_Chr_groups [of st' "CHR ''%''" m]
    by (simp add: body_def del: rmatch.simps)
qed

lemma gcn_extract_some:
  "\<exists>v. extract_metric gcn_metric_regex (pre @ ''Test Accuracy 91.2%'' @ post) = Some v"
proof -
  have "rmatch gcn_regex_ast (''Test Accuracy 91.2%'' @ post, []) \<noteq> []"
    by (simp only: gcn_match_here) simp
  then obtain groups where
    g: "search gcn_regex_ast (pre @ ''Test Accuracy 91.2%'' @ post) = Some groups"
    using search_some by blast
  then obtain v where "map_of groups 1 = Some v"
    using search_result gcn_group_1 by blast
  with g show ?thesis by (simp add: extract_metric_def gcn_regex_parses)
qed

lemma gcn_extract_first:
  assumes "\<not> matches_within gcn_metric_regex pre (''Test Accuracy 91.2%'' @ post)"
  shows "extract_metric gcn_metric_regex (pre @ ''Test Accuracy 91.2%'' @ post) = Some ''91.2''"
proof -
  from assms have "\<not> earlier_match gcn_regex_ast pre (''Test Accuracy 91.2%'' @ post)"
    by (simp add: matches_within_def gcn_regex_parses)
  then have "search gcn_regex_ast (pre @ ''Test Accuracy 91.2%'' @ post)
               = search gcn_regex_ast (''Test Accuracy 91.2%'' @ post)"
    by (rule search_skip)
  also have "\<dots> = Some [(1, ''91.2'')]"
    using gcn_match_here [of post] by simp
  finally show ?thesis by (simp add: extract_metric_def gcn_regex_parses)
qed

text \<open>
  C4. The pattern of the GCN tuning notebook, \<open>Test Accuracy ([0-9\.]+)%\<close>, applied
  to the log line \<open>Test Accuracy 91.2%\<close> succeeds and captures exactly \<open>91.2\<close>. For a
  line that contains this text anywhere, the extraction succeeds and, at the position
  of the text, the pattern matches in one way only, with group 1 equal to \<open>91.2\<close>;
  the value extracted from the line is \<open>91.2\<close> whenever the pattern matches at no
  earlier position of the line.
\<close>

theorem gcn_metric_extraction:
  "extract_metric gcn_metric_regex ''Test Accuracy 91.2%'' = Some ''91.2''
   \<and> (\<exists>v. extract_metric gcn_metric_regex (pre @ ''Test Accuracy 91.2%'' @ post) = Some v)
   \<and> match_at gcn_metric_regex (''Test Accuracy 91.2%'' @ post) = Some [(post, [(1, ''91.2'')])]
   \<and> (\<not> matches_within gcn_metric_regex pre (''Test Accuracy 91.2%'' @ post) \<longrightarrow>
        extract_metric gcn_metric_regex (pre @ ''Test Accuracy 91.2%'' @ post) = Some ''91.2'')"
proof (intro conjI impI)
  have "\<not> matches_within gcn_metric_regex [] (''Test Accuracy 91.2%'' @ [])"
    by (simp add: matches_within_def gcn_regex_parses)
  from gcn_extract_first [OF this]
  show "extract_metric gcn_metric_regex ''Test Accuracy 91.2%'' = Some ''91.2''"
    by simp
  show "\<exists>v. extract_metric gcn_metric_regex (pre @ ''Test Accuracy 91.2%'' @ post) = Some v"
    by (rule gcn_extract_some)
  show "match_at gcn_metric_regex (''Test Accuracy 91.2%'' @ post) = Some [(post, [(1, ''91.2'')])]"
    using gcn_match_here [of post] by (simp add: match_at_def gcn_regex_parses)
  show "extract_metric gcn_metric_regex (pre @ ''Test Accuracy 91.2%'' @ post) = Some ''91.2''"
    if "\<not> matches_within gcn_metric_regex pre (''Test Accuracy 91.2%'' @ post)"
    using that by (rule gcn_extract_first)
qed

text \<open>A line with text before and after the metric.\<close>

theorem gcn_metric_extraction_witness:
  "\<not> matches_within gcn_metric_regex ''Epoch 199 | '' (''Test Accuracy 91.2%'' @ '' | Loss 0.31'')
   \<and> extract_metric gcn_metric_regex (''Epoch 199 | '' @ ''Test Accuracy 91.2%'' @ '' | Loss 0.31'')
       = Some ''91.2''"
proof -
  have h: "\<not> matches_within gcn_metric_regex ''Epoch 199 | ''
             (''Test Accuracy 91.2%'' @ '' | Loss 0.31'')"
    by (simp add: matches_within_def gcn_regex_parses gcn_regex_ast_def step_char_def)
  with gcn_metric_extraction [of "''Epoch 199 | ''" "'' | Loss 0.31''"]
  show ?thesis by blast
qed

text \<open>
  The value is not \<open>91.2\<close> for every line that contains the text: when the pattern
  matches earlier in the line, the search reports that earlier match.
\<close>

theorem gcn_metric_extraction_counterexample:
  "extract_metric gcn_metric_regex (''Test Accuracy 5% '' @ ''Test Accuracy 91.2%'') = Some ''5''
   \<and> extract_metric gcn_metric_regex (''Test Accuracy 5% '' @ ''Test Accuracy 91.2%'')
       \<noteq> Some ''91.2''"
  by (simp add: extract_metric_def gcn_regex_parses gcn_regex_ast_def step_char_def set_group_def)

end
